theory Spec2Isabelle
  imports Main "HOL-Library.Sublist"
begin

section \<open>JavaScript values\<close>

text \<open>
  The values the utilities handle are JSON-like JavaScript values. Numbers are kept as
  integers: no function modelled here computes with them, only their truthiness matters
  (\<open>0\<close> is falsy). An object is its list of properties in \<open>Object.entries\<close> order; a
  property that is not in the list reads as \<open>undefined\<close>.
\<close>

datatype json =
    JUndefined
  | JNull
  | JBool bool
  | JNum int
  | JStr string
  | JArr "json list"
  | JObj "(string \<times> json) list"

text \<open>JavaScript's \<open>ToBoolean\<close>: what \<open>!x\<close> and \<open>if (x)\<close> look at.\<close>

fun truthy :: "json \<Rightarrow> bool" where
  "truthy JUndefined = False"
| "truthy JNull = False"
| "truthy (JBool b) = b"
| "truthy (JNum n) = (n \<noteq> 0)"
| "truthy (JStr s) = (s \<noteq> [])"
| "truthy (JArr xs) = True"
| "truthy (JObj kvs) = True"

text \<open>\<open>a ?? b\<close>: \<open>b\<close> when \<open>a\<close> is \<open>null\<close> or \<open>undefined\<close>, else \<open>a\<close>.\<close>

fun nullish :: "json \<Rightarrow> json \<Rightarrow> json" where
  "nullish JUndefined b = b"
| "nullish JNull b = b"
| "nullish a b = a"

text \<open>\<open>obj[key]\<close> on a plain object.\<close>

definition get_property :: "(string \<times> json) list \<Rightarrow> string \<Rightarrow> json" where
  "get_property obj k = (case map_of obj k of None \<Rightarrow> JUndefined | Some v \<Rightarrow> v)"

section \<open>Strings\<close>

text \<open>\<open>s.indexOf(c)\<close> for a one-character needle; \<open>None\<close> stands for \<open>-1\<close>.\<close>

fun indexOf :: "string \<Rightarrow> char \<Rightarrow> nat option" where
  "indexOf [] c = None"
| "indexOf (x # xs) c =
     (if x = c then Some 0 else (case indexOf xs c of None \<Rightarrow> None | Some i \<Rightarrow> Some (Suc i)))"

text \<open>\<open>s.substring(0, n)\<close> and \<open>s.substring(n)\<close>.\<close>

definition substring_to :: "string \<Rightarrow> nat \<Rightarrow> string" where
  "substring_to s n = take n s"

definition substring_from :: "string \<Rightarrow> nat \<Rightarrow> string" where
  "substring_from s n = drop n s"

text \<open>
  \<open>s.split(c)\<close> for a one-character separator. The result always has at least one part:
  \<open>"".split("/")\<close> is \<open>[""]\<close>, \<open>"a/".split("/")\<close> is \<open>["a", ""]\<close>.
\<close>

fun split :: "string \<Rightarrow> char \<Rightarrow> string list" where
  "split [] c = [[]]"
| "split (x # xs) c =
     (if x = c then [] # split xs c
      else (case split xs c of
              [] \<Rightarrow> [[x]]
            | part # parts \<Rightarrow> (x # part) # parts))"

text \<open>\<open>xs[i]\<close> on an array: \<open>None\<close> stands for \<open>undefined\<close>, which an index out of range gives.\<close>

definition at :: "'a list \<Rightarrow> nat \<Rightarrow> 'a option" where
  "at xs i = (if i < length xs then Some (xs ! i) else None)"

text \<open>\<open>s.startsWith("#")\<close>.\<close>

fun startsWith_hash :: "string \<Rightarrow> bool" where
  "startsWith_hash [] = False"
| "startsWith_hash (c # cs) = (c = CHR ''#'')"

section \<open>Content-type matching\<close>

text \<open>
  The loop of \<open>pickContentType\<close> over \<open>Object.entries(values)\<close>, with its two variables
  \<open>chosen\<close> and \<open>wildcardsUsed\<close> as arguments. \<open>continue\<close> is the recursive call with the
  variables unchanged, \<open>break\<close> returns \<open>chosen\<close> at once. \<open>!chosen\<close> is JavaScript's
  truthiness test on the value chosen so far.
\<close>

fun pickContentType_loop ::
  "string list \<Rightarrow> (string \<times> json) list \<Rightarrow> json \<Rightarrow> nat \<Rightarrow> json" where
  "pickContentType_loop contentTypeParts [] chosen wildcardsUsed = chosen"
| "pickContentType_loop contentTypeParts ((type, value) # rest) chosen wildcardsUsed =
     (let typeParts = split type CHR ''/'' in
      if at typeParts 0 \<noteq> Some ''*'' \<and> at typeParts 0 \<noteq> at contentTypeParts 0
      then pickContentType_loop contentTypeParts rest chosen wildcardsUsed
      else if at typeParts 1 \<noteq> Some ''*'' \<and> at typeParts 1 \<noteq> at contentTypeParts 1
      then pickContentType_loop contentTypeParts rest chosen wildcardsUsed
      else
        let localWildcards =
          (if at typeParts 0 = Some ''*'' then 1 else 0) + (if at typeParts 1 = Some ''*'' then 1 else (0::nat))
        in
          if \<not> truthy chosen \<or> localWildcards < wildcardsUsed
          then (if localWildcards = 0 then value
                else pickContentType_loop contentTypeParts rest value localWildcards)
          else pickContentType_loop contentTypeParts rest chosen wildcardsUsed)"

text \<open>
  \<open>pickContentType(contentType, values)\<close>. The content type is \<open>string | null\<close>; the record
  is the list of its entries, whose keys are distinct in a JavaScript object. The result
  \<open>JNull\<close> is the function's \<open>null\<close>.
\<close>

definition pickContentType :: "string option \<Rightarrow> (string \<times> json) list \<Rightarrow> json" where
  "pickContentType contentType values =
     (let contentType1 = (if contentType = Some [] then None else contentType);
          contentType2 =
            (case contentType1 of
               None \<Rightarrow> None
             | Some ct \<Rightarrow>
                 (if ct \<noteq> [] then
                    (case indexOf ct CHR '';'' of
                       None \<Rightarrow> Some ct
                     | Some semicolon \<Rightarrow> Some (substring_to ct semicolon))
                  else Some ct))
      in
        case contentType2 of
          None \<Rightarrow> nullish (get_property values ''*/*'') JNull
        | Some ct \<Rightarrow>
            if ct = [] then nullish (get_property values ''*/*'') JNull
            else pickContentType_loop (split ct CHR ''/'') values JNull 0)"

subsection \<open>The matching rule as the specification words it\<close>

text \<open>
  The specification's algorithm, to compare \<open>pickContentType\<close> with: the parameters after
  the first \<open>;\<close> are dropped; a type is split at \<open>/\<close> into its type half and its subtype
  half (the second may be missing); a pattern matches when each of its halves is \<open>*\<close> or
  equal to the observed half; among the matching patterns one without wildcard halves is
  preferred to one with one, and that to one with two, the first in entry order among
  equals; an empty or absent type selects the entry of \<open>*/*\<close> only.
\<close>

definition spec_halves :: "string \<Rightarrow> string option \<times> string option" where
  "spec_halves t = (at (split t CHR ''/'') 0, at (split t CHR ''/'') 1)"

definition spec_matches :: "string \<Rightarrow> string \<Rightarrow> bool" where
  "spec_matches observed pattern =
     ((fst (spec_halves pattern) = Some ''*'' \<or> fst (spec_halves pattern) = fst (spec_halves observed))
      \<and> (snd (spec_halves pattern) = Some ''*'' \<or> snd (spec_halves pattern) = snd (spec_halves observed)))"

definition spec_wildcards :: "string \<Rightarrow> nat" where
  "spec_wildcards pattern =
     (if fst (spec_halves pattern) = Some ''*'' then 1 else 0)
     + (if snd (spec_halves pattern) = Some ''*'' then 1 else 0)"

text \<open>The first entry that matches with exactly \<open>k\<close> wildcard halves.\<close>

definition spec_first_match :: "string \<Rightarrow> nat \<Rightarrow> (string \<times> json) list \<Rightarrow> (string \<times> json) option" where
  "spec_first_match observed k values =
     find (\<lambda>entry. spec_matches observed (fst entry) \<and> spec_wildcards (fst entry) = k) values"

text \<open>
  The best match among the patterns with fewer than \<open>bound\<close> wildcard halves, and
  \<open>fallback\<close> when there is none.
\<close>

definition spec_best_below :: "nat \<Rightarrow> string \<Rightarrow> (string \<times> json) list \<Rightarrow> json \<Rightarrow> json" where
  "spec_best_below bound observed values fallback =
     (case spec_first_match observed 0 values of
        Some entry \<Rightarrow> snd entry
      | None \<Rightarrow>
          if bound \<le> 1 then fallback
          else
            (case spec_first_match observed 1 values of
               Some entry \<Rightarrow> snd entry
             | None \<Rightarrow>
                 if bound \<le> 2 then fallback
                 else
                   (case spec_first_match observed 2 values of
                      Some entry \<Rightarrow> snd entry
                    | None \<Rightarrow> fallback)))"

definition spec_pickContentType :: "string option \<Rightarrow> (string \<times> json) list \<Rightarrow> json" where
  "spec_pickContentType contentType values =
     (case contentType of
        None \<Rightarrow> nullish (get_property values ''*/*'') JNull
      | Some ct \<Rightarrow>
          (let observed = takeWhile (\<lambda>c. c \<noteq> CHR '';'') ct in
           if observed = [] then nullish (get_property values ''*/*'') JNull
           else spec_best_below 3 observed values JNull))"

section \<open>Exceptions\<close>

text \<open>
  Every \<open>throw\<close> is a value: a function that may throw returns \<open>exn + 'a\<close>, \<open>Inl\<close> the
  exception. \<open>Error\<close> carries its message. \<open>ValidationError\<close> is the validation
  engine's exception class and carries the validator's error objects; of an error object
  only the location in the validated data, the failing keyword and the message are kept.
\<close>

record ajv_error =
  instancePath :: string
  keyword :: string
  message :: string

datatype exn =
    Error string
  | TypeError string
  | ValidationError "ajv_error list"
  | InvalidPtrError string
  | EvalError string

section \<open>Reference resolution\<close>

text \<open>
  \<open>"$ref" in value\<close> followed by \<open>value["$ref"]\<close>: \<open>Some\<close> of the property when the
  object has one. An array is an object without that property; the \<open>in\<close> operator throws a
  \<open>TypeError\<close> on a primitive (which the parameter's type \<open>T extends object\<close> excludes).
\<close>

fun ref_property :: "json \<Rightarrow> exn + json option" where
  "ref_property (JObj kvs) = Inr (map_of kvs ''$ref'')"
| "ref_property (JArr xs) = Inr None"
| "ref_property v = Inl (TypeError ''Cannot use in operator to search for $ref'')"

text \<open>
  \<open>resolveReference(spec, value)\<close>. The JSON-pointer package is not part of the repository:
  its \<open>Ptr.parse\<close> and \<open>ptr.eval\<close> are the parameters \<open>parse\<close> and \<open>eval\<close>, each of which may
  throw. \<open>Ptr.parse\<close> is called before the \<open>try\<close> block, so what it throws leaves the
  function; what \<open>ptr.eval\<close> throws is caught and turned into \<open>null\<close>. A \<open>$ref\<close> that is
  not a string has no \<open>startsWith\<close> method, which is a \<open>TypeError\<close>.
\<close>

definition resolveReference ::
  "(string \<Rightarrow> exn + 'ptr) \<Rightarrow> ('ptr \<Rightarrow> 'doc \<Rightarrow> exn + json) \<Rightarrow> 'doc \<Rightarrow> json \<Rightarrow> exn + json" where
  "resolveReference parse eval spec value =
     (case ref_property value of
        Inl e \<Rightarrow> Inl e
      | Inr None \<Rightarrow> Inr value
      | Inr (Some (JStr ref)) \<Rightarrow>
          if \<not> startsWith_hash ref
          then Inl (Error (''Cannot resolve external reference \"'' @ ref @ ''\" in the OpenAPI schema.''))
          else
            (case parse (substring_from ref 1) of
               Inl e \<Rightarrow> Inl e
             | Inr ptr \<Rightarrow>
                 (case eval ptr spec of
                    Inl e \<Rightarrow> Inr JNull
                  | Inr target \<Rightarrow> Inr target))
      | Inr (Some other) \<Rightarrow> Inl (TypeError ''value.$ref.startsWith is not a function''))"

subsection \<open>The JSON-pointer package\<close>

text \<open>
  A model of the package \<open>@json-schema-spec/json-pointer\<close> that \<open>resolveReference\<close> is
  linked with, for running \<open>resolveReference\<close> on concrete documents. A pointer is its list
  of reference tokens. \<open>Ptr.parse\<close> accepts the empty string (no token) and strings that
  begin with \<open>/\<close>, and throws \<open>InvalidPtrError\<close> on every other string, as RFC 6901
  requires; in each token \<open>~1\<close> stands for \<open>/\<close> and \<open>~0\<close> for \<open>~\<close>.
\<close>

fun replace_tilde :: "char \<Rightarrow> char \<Rightarrow> string \<Rightarrow> string" where
  "replace_tilde d c [] = []"
| "replace_tilde d c [x] = [x]"
| "replace_tilde d c (x # y # rest) =
     (if x = CHR ''~'' \<and> y = d then c # replace_tilde d c rest
      else x # replace_tilde d c (y # rest))"

definition Ptr_parse :: "string \<Rightarrow> exn + string list" where
  "Ptr_parse s =
     (if s = [] then Inr []
      else if hd s \<noteq> CHR ''/'' then Inl (InvalidPtrError s)
      else Inr (map (\<lambda>token. replace_tilde CHR ''0'' CHR ''~'' (replace_tilde CHR ''1'' CHR ''/'' token))
                  (tl (split s CHR ''/''))))"

text \<open>
  \<open>ptr.eval(instance)\<close> follows the tokens through own properties and throws \<open>EvalError\<close>
  at the first token the current value does not have. Objects are followed by key. The
  own properties of arrays and strings (indices, \<open>length\<close>) are not modelled: the documents
  evaluated here reach their targets through objects only.
\<close>

fun Ptr_eval :: "string list \<Rightarrow> json \<Rightarrow> exn + json" where
  "Ptr_eval [] instance = Inr instance"
| "Ptr_eval (token # tokens) (JObj kvs) =
     (case map_of kvs token of
        None \<Rightarrow> Inl (EvalError token)
      | Some v \<Rightarrow> Ptr_eval tokens v)"
| "Ptr_eval (token # tokens) instance = Inl (EvalError token)"


section \<open>The schema-validation engine\<close>

text \<open>
  The validation engine (Ajv) is a library the repository calls and is taken as a
  parameter. \<open>ajv.compile(schema)\<close> returns a validate function or throws. A call
  \<open>validate(wrapper)\<close> returns a boolean, may change the properties of \<open>wrapper\<close> in place
  (coercion, defaults) and leaves its error objects in \<open>validate.errors\<close>: the three are the
  fields of the record \<open>validation\<close>, \<open>data\<close> being the properties of \<open>wrapper\<close> after the
  call. \<open>ajv.errorsText\<close> renders error objects as text.
\<close>

record validation =
  valid :: bool
  data :: "(string \<times> json) list"
  errors :: "ajv_error list"

type_synonym validator = "(string \<times> json) list \<Rightarrow> validation"

record ajv =
  compile :: "json \<Rightarrow> exn + validator"
  errorsText :: "ajv_error list \<Rightarrow> string"

text \<open>
  What one Ajv instance has been asked to compile is the only state the factory touches:
  the list of the schemas passed to \<open>ajv.compile\<close> so far, oldest first. Functions that can
  reach \<open>ajv.compile\<close> take this list and return it extended.
\<close>

type_synonym compiled = "json list"

section \<open>Value coercion\<close>

type_synonym processor = "json \<Rightarrow> exn + json"

text \<open>
  The function that \<open>createValueProcessor\<close> returns, given the validate function it has
  compiled: \<open>(value) => { const wrapper = { value }; ... }\<close>.
\<close>

definition processValue :: "validator \<Rightarrow> processor" where
  "processValue validate value =
     (let wrapper = [(''value'', value)];
          result = validate wrapper
      in if \<not> valid result then Inl (ValidationError (errors result))
         else Inr (get_property (data result) ''value''))"

definition wrappedSchema :: "json \<Rightarrow> json" where
  "wrappedSchema schema =
     JObj [(''type'', JStr ''object''), (''properties'', JObj [(''value'', schema)])]"

text \<open>
  \<open>createValueProcessor(schema)\<close>, the closure inside \<open>createMethodHandlerFromSpec\<close>, with
  the \<open>ajv\<close> it closes over as its first argument. It calls \<open>ajv.compile\<close> once, on the
  wrapper schema it has just built.
\<close>

definition createValueProcessor ::
  "ajv \<Rightarrow> json \<Rightarrow> compiled \<Rightarrow> (exn + processor) \<times> compiled" where
  "createValueProcessor ajv schema compiled =
     (case compile ajv (wrappedSchema schema) of
        Inl e \<Rightarrow> (Inl e, compiled @ [wrappedSchema schema])
      | Inr validate \<Rightarrow> (Inr (processValue validate), compiled @ [wrappedSchema schema]))"

text \<open>
  The reading of the specification's sentence on error locations: the leading segment
  \<open>/value\<close> of the location is removed from an error object.
\<close>

definition spec_strip_value_segment :: "ajv_error \<Rightarrow> ajv_error" where
  "spec_strip_value_segment e =
     (if take 6 (instancePath e) = ''/value'' then e\<lparr>instancePath := drop 6 (instancePath e)\<rparr> else e)"

section \<open>Operations and their binding metadata\<close>

text \<open>
  Functions, symbols and middleware are JavaScript objects without structure of interest:
  each is its identity. A symbol also has the description that \<open>String(symbol)\<close> prints.
\<close>

datatype js_function = JsFunction nat

datatype js_symbol = JsSymbol nat string

datatype handler_middleware = HandlerMiddleware nat

datatype express_middleware = ExpressMiddleware nat

datatype property_key = StringKey string | SymbolKey js_symbol

datatype property_value = FunctionValue js_function | OtherValue json

text \<open>
  A controller instance is an object with methods: the list of the properties that
  \<open>controller[key]\<close> finds, inherited ones included.
\<close>

type_synonym ControllerInstance = "(property_key \<times> property_value) list"

datatype controller_ref =
    ControllerObject ControllerInstance
  | ControllerString string
  | ControllerSymbol js_symbol

datatype handler_ref =
    HandlerFunction js_function
  | HandlerString string
  | HandlerSymbol js_symbol

datatype SOCControllerMethodHandlerArg =
    OpenapiParameter string
  | RequestBody
  | RequestRaw
  | ResponseRaw

text \<open>The \<open>type\<close> tag of an argument descriptor.\<close>

fun arg_type :: "SOCControllerMethodHandlerArg \<Rightarrow> string" where
  "arg_type (OpenapiParameter parameterName) = ''openapi-parameter''"
| "arg_type RequestBody = ''request-body''"
| "arg_type RequestRaw = ''request-raw''"
| "arg_type ResponseRaw = ''response-raw''"

text \<open>
  The extension data of an operation. Its fields carry the prefix \<open>ext_\<close>, those of the
  build options below \<open>opts_\<close> and those of the method handler \<open>mh_\<close>, since the three
  share field names in the source.
\<close>

record SOCControllerMethodExtensionData =
  ext_controller :: controller_ref
  ext_handler :: handler_ref
  ext_handlerArgs :: "SOCControllerMethodHandlerArg list option"
  ext_handlerMiddleware :: "handler_middleware list option"
  ext_preExpressMiddleware :: "express_middleware list option"

text \<open>
  Of an operation object the factory reads \<open>operationId\<close> and the extension property
  named \<open>SOCControllerMethodExtensionName\<close>, here the field \<open>extension\<close>; \<open>None\<close> is a
  property that is missing (or holds a falsy value). A path item maps request methods to
  operations, the \<open>paths\<close> object maps paths to path items. A path is any string, and
  \<open>paths[path]\<close> is read with \<open>property_of\<close>; a path item is read at a request method, which
  finds an own property or \<open>undefined\<close>.
\<close>

text \<open>
  The request methods. The type \<open>RequestMethod\<close> is not among the sources; \<open>pathItem[method]\<close>
  is typed as an operation, and the operation fields of a path item are these eight. None
  of the eight names is a property of \<open>Object.prototype\<close> or of a function object.
\<close>

datatype RequestMethod = Get | Put | Post | Delete | Options | Head | Patch | Trace

fun String_method :: "RequestMethod \<Rightarrow> string" where
  "String_method Get = ''get''"
| "String_method Put = ''put''"
| "String_method Post = ''post''"
| "String_method Delete = ''delete''"
| "String_method Options = ''options''"
| "String_method Head = ''head''"
| "String_method Patch = ''patch''"
| "String_method Trace = ''trace''"

text \<open>
  \<open>obj[key]\<close> on a plain object goes through the prototype chain: a key that is not an own
  property but names a property of \<open>Object.prototype\<close> finds the inherited value, which is
  a function (for \<open>__proto__\<close>, the prototype object itself): truthy, and without a property
  named by a request method.
\<close>

definition object_prototype_keys :: "string list" where
  "object_prototype_keys =
     [''constructor'', ''__defineGetter__'', ''__defineSetter__'', ''hasOwnProperty'',
      ''__lookupGetter__'', ''__lookupSetter__'', ''isPrototypeOf'', ''propertyIsEnumerable'',
      ''toString'', ''valueOf'', ''__proto__'', ''toLocaleString'']"

datatype 'a property = Own 'a | Inherited | Missing

definition property_of :: "(string \<times> 'a) list \<Rightarrow> string \<Rightarrow> 'a property" where
  "property_of obj key =
     (case map_of obj key of
        Some v \<Rightarrow> Own v
      | None \<Rightarrow> if key \<in> set object_prototype_keys then Inherited else Missing)"

record OperationObject =
  operationId :: "string option"
  extension :: "SOCControllerMethodExtensionData option"

type_synonym PathItemObject = "(RequestMethod \<times> OperationObject) list"

record OpenAPIObject =
  paths :: "(string \<times> PathItemObject) list option"

record OperationContext =
  ctx_spec :: OpenAPIObject
  ctx_path :: string
  ctx_method :: RequestMethod
  ctx_pathItem :: PathItemObject
  ctx_operation :: OperationObject

text \<open>
  The module \<open>../../openapi\<close> is not among the sources: the name of the extension and the
  validator of extension data are parameters. The validator returns whether the data is
  valid and its \<open>errors\<close>.
\<close>

record openapi_module =
  SOCControllerMethodExtensionName :: string
  validateSOCControllerMethodExtensionData ::
    "SOCControllerMethodExtensionData \<Rightarrow> bool \<times> ajv_error list"

text \<open>How a template literal prints a value: \<open>String(x)\<close>.\<close>

definition String_opt :: "string option \<Rightarrow> string" where
  "String_opt s = (case s of None \<Rightarrow> ''undefined'' | Some t \<Rightarrow> t)"

fun String_symbol :: "js_symbol \<Rightarrow> string" where
  "String_symbol (JsSymbol i description) = ''Symbol('' @ description @ '')''"

fun String_key :: "property_key \<Rightarrow> string" where
  "String_key (StringKey s) = s"
| "String_key (SymbolKey y) = String_symbol y"

section \<open>Default resolvers\<close>


text \<open>
  The message of the error of \<open>defaultResolveController\<close>; \<open>got\<close> is \<open>String(controller)\<close>.
\<close>

definition controller_not_an_object :: "string \<Rightarrow> OperationContext \<Rightarrow> string" where
  "controller_not_an_object got ctx =
     ''Controller for operation '' @ String_opt (operationId (ctx_operation ctx))
       @ '' handling \"'' @ String_method (ctx_method ctx) @ '' '' @ ctx_path ctx
       @ ''\" is not an object (got '' @ got @ '').''"

text \<open>
  \<open>defaultResolveController\<close>: lodash's \<open>isObject\<close> holds of the object and of neither a
  string nor a symbol.
\<close>

fun defaultResolveController :: "controller_ref \<Rightarrow> OperationContext \<Rightarrow> exn + ControllerInstance" where
  "defaultResolveController (ControllerObject obj) ctx = Inr obj"
| "defaultResolveController (ControllerString s) ctx =
     Inl (Error (controller_not_an_object s ctx))"
| "defaultResolveController (ControllerSymbol y) ctx =
     Inl (Error (controller_not_an_object (String_symbol y) ctx))"

text \<open>\<open>typeof controller[key] === "function"\<close>, and the function then.\<close>

definition lookup_method :: "ControllerInstance \<Rightarrow> property_key \<Rightarrow> js_function option" where
  "lookup_method controller key =
     (case map_of controller key of
        Some (FunctionValue f) \<Rightarrow> Some f
      | _ \<Rightarrow> None)"

text \<open>
  The message of the error of \<open>defaultResolveHandler\<close>. In it \<open>String(method)\<close> is the
  handler key, which the source prints twice (the request method is not printed).
\<close>

definition handler_not_a_function :: "property_key \<Rightarrow> OperationContext \<Rightarrow> string" where
  "handler_not_a_function key ctx =
     ''Handler for operation \"'' @ String_opt (operationId (ctx_operation ctx))
       @ ''\" handling \"'' @ String_key key @ '' '' @ ctx_path ctx
       @ ''\" is not a function (got '' @ String_key key @ '').''"

text \<open>
  \<open>defaultResolveHandler\<close>. A string or symbol is replaced by \<open>controller[method]\<close> when
  that is a function; if it is not, \<open>method\<close> is still the string or the symbol, which is
  not a function. A function is returned as it is.
\<close>

fun defaultResolveHandler ::
  "ControllerInstance \<Rightarrow> handler_ref \<Rightarrow> OperationContext \<Rightarrow> exn + js_function" where
  "defaultResolveHandler controller (HandlerFunction f) ctx = Inr f"
| "defaultResolveHandler controller (HandlerString s) ctx =
     (case lookup_method controller (StringKey s) of
        Some f \<Rightarrow> Inr f
      | None \<Rightarrow> Inl (Error (handler_not_a_function (StringKey s) ctx)))"
| "defaultResolveHandler controller (HandlerSymbol y) ctx =
     (case lookup_method controller (SymbolKey y) of
        Some f \<Rightarrow> Inr f
      | None \<Rightarrow> Inl (Error (handler_not_a_function (SymbolKey y) ctx)))"


section \<open>The method handler factory\<close>

text \<open>
  What a request-data-processor factory is called with. The last field is the
  \<open>createValueProcessor\<close> closure, through which a factory reaches \<open>ajv.compile\<close>.
\<close>

record factory_context =
  fc_spec :: OpenAPIObject
  fc_path :: string
  fc_method :: RequestMethod
  fc_pathItem :: PathItemObject
  fc_operation :: OperationObject
  fc_controller :: ControllerInstance
  fc_handler :: js_function
  fc_createValueProcessor :: "json \<Rightarrow> compiled \<Rightarrow> (exn + processor) \<times> compiled"

text \<open>
  A factory returns a request-data processor (of a type \<open>'p\<close> the factory does not look
  into), or \<open>null\<close>/\<open>undefined\<close>, or throws.
\<close>

type_synonym 'p factory = "factory_context \<Rightarrow> compiled \<Rightarrow> (exn + 'p option) \<times> compiled"

record 'p CreateMethodHandlerOpts =
  opts_resolveController :: "(controller_ref \<Rightarrow> OperationContext \<Rightarrow> exn + ControllerInstance) option"
  opts_resolveHandler ::
    "(ControllerInstance \<Rightarrow> handler_ref \<Rightarrow> OperationContext \<Rightarrow> exn + js_function) option"
  opts_requestDataProcessorFactories :: "'p factory list option"
  opts_handlerMiddleware :: "handler_middleware list option"
  opts_preExpressMiddleware :: "express_middleware list option"
  opts_postExpressMiddleware :: "express_middleware list option"

record MethodHandlerContext =
  mhc_spec :: OpenAPIObject
  mhc_path :: string
  mhc_method :: RequestMethod
  mhc_pathItem :: PathItemObject
  mhc_operation :: OperationObject
  mhc_controller :: ControllerInstance
  mhc_handler :: js_function

text \<open>
  The class \<open>MethodHandler\<close> is not among the sources; an instance is the eight arguments
  its constructor is given, in their order.
\<close>

record 'p MethodHandler =
  mh_controller :: ControllerInstance
  mh_handler :: js_function
  mh_handlerArgs :: "SOCControllerMethodHandlerArg list"
  mh_processors :: "'p list"
  mh_handlerMiddleware :: "handler_middleware list"
  mh_preExpressMiddleware :: "express_middleware list"
  mh_postExpressMiddleware :: "express_middleware list"
  mh_context :: MethodHandlerContext

text \<open>\<open>x ?? []\<close> on an optional array.\<close>

definition or_empty :: "'a list option \<Rightarrow> 'a list" where
  "or_empty xs = (case xs of None \<Rightarrow> [] | Some ys \<Rightarrow> ys)"

text \<open>
  \<open>factories.map((factory) => factory({...}))\<close>: the factories run in order, and the
  first one that throws ends the run.
\<close>

fun run_factories ::
  "'p factory list \<Rightarrow> factory_context \<Rightarrow> compiled \<Rightarrow> (exn + 'p option list) \<times> compiled" where
  "run_factories [] fc compiled = (Inr [], compiled)"
| "run_factories (factory # factories) fc compiled =
     (case factory fc compiled of
        (Inl e, compiled1) \<Rightarrow> (Inl e, compiled1)
      | (Inr p, compiled1) \<Rightarrow>
          (case run_factories factories fc compiled1 of
             (Inl e, compiled2) \<Rightarrow> (Inl e, compiled2)
           | (Inr ps, compiled2) \<Rightarrow> (Inr (p # ps), compiled2)))"

text \<open>\<open>.filter(isNotNullOrUndefined)\<close>.\<close>

definition filter_isNotNullOrUndefined :: "'p option list \<Rightarrow> 'p list" where
  "filter_isNotNullOrUndefined ps = List.map_filter (\<lambda>p. p) ps"

text \<open>
  \<open>createMethodHandlerFromSpec(spec, path, method, ajv, opts)\<close>, with the module
  \<open>openapi\<close> it imports as a further parameter and the compile log passed through. When
  \<open>paths[path]\<close> is an inherited value, \<open>!pathItem\<close> is false and \<open>pathItem[method]\<close> is
  \<open>undefined\<close>, so the second test throws.
\<close>

definition createMethodHandlerFromSpec ::
  "openapi_module \<Rightarrow> OpenAPIObject \<Rightarrow> string \<Rightarrow> RequestMethod \<Rightarrow> ajv \<Rightarrow> 'p CreateMethodHandlerOpts
     \<Rightarrow> compiled \<Rightarrow> (exn + 'p MethodHandler) \<times> compiled" where
  "createMethodHandlerFromSpec openapi spec path method ajv opts compiled =
     (case property_of (or_empty (paths spec)) path of
        Missing \<Rightarrow> (Inl (Error (''Path '' @ path @ '' not found in spec.'')), compiled)
      | Inherited \<Rightarrow>
          (Inl (Error (''Operation '' @ String_method method @ '' not found on path '' @ path @ ''.'')),
           compiled)
      | Own pathItem \<Rightarrow>
     (case map_of pathItem method of
        None \<Rightarrow>
          (Inl (Error (''Operation '' @ String_method method @ '' not found on path '' @ path @ ''.'')),
           compiled)
      | Some operation \<Rightarrow>
     (case extension operation of
        None \<Rightarrow>
          (Inl (Error (''Operation '' @ String_opt (operationId operation) @ '' is missing the ''
             @ SOCControllerMethodExtensionName openapi @ '' extension.'')), compiled)
      | Some extensionData \<Rightarrow>
     (if \<not> fst (validateSOCControllerMethodExtensionData openapi extensionData) then
        (Inl (Error (''Operation '' @ String_opt (operationId operation) @ '' has an invalid ''
           @ SOCControllerMethodExtensionName openapi @ '' extension: ''
           @ errorsText ajv (snd (validateSOCControllerMethodExtensionData openapi extensionData))
           @ ''}'')), compiled)
      else
        let resolveController =
              (case opts_resolveController opts of
                 None \<Rightarrow> defaultResolveController
               | Some f \<Rightarrow> f);
            resolveHandler =
              (case opts_resolveHandler opts of
                 None \<Rightarrow> defaultResolveHandler
               | Some f \<Rightarrow> f);
            ctx = \<lparr>ctx_spec = spec, ctx_path = path, ctx_method = method,
                   ctx_pathItem = pathItem, ctx_operation = operation\<rparr>
        in
     (case resolveController (ext_controller extensionData) ctx of
        Inl e \<Rightarrow> (Inl e, compiled)
      | Inr controller \<Rightarrow>
     (case resolveHandler controller (ext_handler extensionData) ctx of
        Inl e \<Rightarrow> (Inl e, compiled)
      | Inr handler \<Rightarrow>
     (case run_factories (or_empty (opts_requestDataProcessorFactories opts))
             \<lparr>fc_spec = spec, fc_path = path, fc_method = method, fc_pathItem = pathItem,
              fc_operation = operation, fc_controller = controller, fc_handler = handler,
              fc_createValueProcessor = createValueProcessor ajv\<rparr> compiled of
        (Inl e, compiled1) \<Rightarrow> (Inl e, compiled1)
      | (Inr produced, compiled1) \<Rightarrow>
          (Inr \<lparr>mh_controller = controller,
                mh_handler = handler,
                mh_handlerArgs = or_empty (ext_handlerArgs extensionData),
                mh_processors = filter_isNotNullOrUndefined produced,
                mh_handlerMiddleware =
                  or_empty (opts_handlerMiddleware opts) @ or_empty (ext_handlerMiddleware extensionData),
                mh_preExpressMiddleware =
                  or_empty (opts_preExpressMiddleware opts)
                    @ or_empty (ext_preExpressMiddleware extensionData),
                mh_postExpressMiddleware = or_empty (opts_postExpressMiddleware opts),
                mh_context =
                  \<lparr>mhc_spec = spec, mhc_path = path, mhc_method = method,
                   mhc_pathItem = pathItem, mhc_operation = operation,
                   mhc_controller = controller, mhc_handler = handler\<rparr>\<rparr>,
           compiled1))))))))"

section \<open>Argument descriptors set by parameter decorators\<close>

text \<open>
  The metadata of a controller method. \<open>setMethodParameterType\<close> reads and writes its
  \<open>args\<close>, an array that may be absent and may have holes (\<open>None\<close> is an \<open>undefined\<close>
  element); the other fields are the record's extension part, which \<open>{...previous, args}\<close>
  copies.
\<close>

record SOCControllerMethodMetadata =
  args :: "SOCControllerMethodHandlerArg option list option"

text \<open>
  \<open>arr[i] = v\<close> on a JavaScript array: past the end, the array grows and the elements in
  between are \<open>undefined\<close>.
\<close>

definition array_set :: "'a option list \<Rightarrow> nat \<Rightarrow> 'a \<Rightarrow> 'a option list" where
  "array_set arr i v =
     (if i < length arr then arr[i := Some v]
      else arr @ replicate (i - length arr) None @ [Some v])"

text \<open>\<open>args[parameterIndex]?.type\<close> as a condition: a descriptor is there and its tag is truthy.\<close>

definition has_type :: "SOCControllerMethodHandlerArg option list \<Rightarrow> nat \<Rightarrow> bool" where
  "has_type arr i =
     (case at arr i of
        Some (Some a) \<Rightarrow> arg_type a \<noteq> []
      | _ \<Rightarrow> False)"

text \<open>How a template literal prints a non-negative integer.\<close>

fun String_nat :: "nat \<Rightarrow> string" where
  "String_nat n =
     (if n < 10 then [''0123456789'' ! n]
      else String_nat (n div 10) @ [''0123456789'' ! (n mod 10)])"

text \<open>
  The function that \<open>setMethodParameterType\<close> hands to
  \<open>mergeSOCControllerMethodMetadata\<close>: from the previous metadata to the next, or a throw.
  A parameter index is the position a parameter decorator is given, a natural number.
\<close>

definition setMethodParameterType_update ::
  "property_key \<Rightarrow> nat \<Rightarrow> SOCControllerMethodHandlerArg
     \<Rightarrow> 'a SOCControllerMethodMetadata_scheme \<Rightarrow> exn + 'a SOCControllerMethodMetadata_scheme" where
  "setMethodParameterType_update propertyKey parameterIndex arg previous =
     (let args1 = or_empty (args previous) in
      if has_type args1 parameterIndex
      then Inl (Error (''Method handler '' @ String_key propertyKey
             @ '' cannot redefine the parameter type at index '' @ String_nat parameterIndex @ ''.''))
      else Inr (previous\<lparr>args := Some (array_set args1 parameterIndex arg)\<rparr>))"

text \<open>
  \<open>setMethodParameterType(target, propertyKey, parameterIndex, arg)\<close>. The module
  \<open>metadata\<close> is not among the sources: \<open>mergeSOCControllerMethodMetadata\<close> is the parameter
  \<open>merge\<close>, which is given the target, the update function and the property key.
\<close>

definition setMethodParameterType ::
  "('t \<Rightarrow> ('a SOCControllerMethodMetadata_scheme \<Rightarrow> exn + 'a SOCControllerMethodMetadata_scheme)
      \<Rightarrow> property_key \<Rightarrow> 'r)
     \<Rightarrow> 't \<Rightarrow> property_key \<Rightarrow> nat \<Rightarrow> SOCControllerMethodHandlerArg \<Rightarrow> 'r" where
  "setMethodParameterType merge target propertyKey parameterIndex arg =
     merge target (setMethodParameterType_update propertyKey parameterIndex arg) propertyKey"


section \<open>Example inputs\<close>

text \<open>
  A small validation engine to run the factory on: it compiles the wrapper of the schema
  \<open>{ type: "number" }\<close> and no other schema. Its validator accepts a number, turns a
  string of decimal digits into the number it denotes (coercion, in place), and rejects
  any other value with one error object located at the property \<open>value\<close> of the wrapper.
\<close>

definition number_schema :: json where
  "number_schema = JObj [(''type'', JStr ''number'')]"

definition is_digit :: "char \<Rightarrow> bool" where
  "is_digit c = (48 \<le> (of_char c :: nat) \<and> (of_char c :: nat) \<le> 57)"

definition decimal_value :: "string \<Rightarrow> int" where
  "decimal_value s = foldl (\<lambda>n c. 10 * n + (int (of_char c) - 48)) 0 s"

definition must_be_number :: ajv_error where
  "must_be_number = \<lparr>instancePath = ''/value'', keyword = ''type'', message = ''must be number''\<rparr>"

definition set_value :: "json \<Rightarrow> (string \<times> json) list \<Rightarrow> (string \<times> json) list" where
  "set_value v wrapper = map (\<lambda>(k, w). if k = ''value'' then (k, v) else (k, w)) wrapper"

definition number_validator :: validator where
  "number_validator wrapper =
     (case get_property wrapper ''value'' of
        JUndefined \<Rightarrow> \<lparr>valid = True, data = wrapper, errors = []\<rparr>
      | JNum n \<Rightarrow> \<lparr>valid = True, data = wrapper, errors = []\<rparr>
      | JStr s \<Rightarrow>
          if s \<noteq> [] \<and> list_all is_digit s
          then \<lparr>valid = True, data = set_value (JNum (decimal_value s)) wrapper, errors = []\<rparr>
          else \<lparr>valid = False, data = wrapper, errors = [must_be_number]\<rparr>
      | _ \<Rightarrow> \<lparr>valid = False, data = wrapper, errors = [must_be_number]\<rparr>)"

definition example_ajv :: ajv where
  "example_ajv =
     \<lparr>compile = (\<lambda>schema. if schema = wrappedSchema number_schema then Inr number_validator
                           else Inl (Error ''schema is invalid'')),
      errorsText = (\<lambda>es. concat (map (\<lambda>e. ''data'' @ instancePath e @ '' '' @ message e) es))\<rparr>"

text \<open>
  Documents with one path and two operations, of which \<open>get\<close> carries the extension
  data given and \<open>post\<close> carries none. In \<open>example_spec\<close>, \<open>get\<close> is bound to the method
  \<open>listPets\<close> of a controller object. Build options without resolvers, with
  default middleware and two processor factories, one that declines and one that builds a
  value processor for the number schema and returns the processor numbered 1.
\<close>

definition example_controller :: ControllerInstance where
  "example_controller =
     [(StringKey ''listPets'', FunctionValue (JsFunction 1)),
      (SymbolKey (JsSymbol 7 ''countPets''), FunctionValue (JsFunction 2)),
      (StringKey ''name'', OtherValue (JStr ''pets''))]"

definition example_extension :: SOCControllerMethodExtensionData where
  "example_extension =
     \<lparr>ext_controller = ControllerObject example_controller,
      ext_handler = HandlerString ''listPets'',
      ext_handlerArgs = Some [OpenapiParameter ''limit''],
      ext_handlerMiddleware = Some [HandlerMiddleware 2],
      ext_preExpressMiddleware = Some [ExpressMiddleware 3]\<rparr>"

definition operation_with :: "SOCControllerMethodExtensionData \<Rightarrow> OperationObject" where
  "operation_with extensionData = \<lparr>operationId = Some ''listPets'', extension = Some extensionData\<rparr>"

definition pathItem_with :: "SOCControllerMethodExtensionData \<Rightarrow> PathItemObject" where
  "pathItem_with extensionData =
     [(Get, operation_with extensionData),
      (Post, \<lparr>operationId = Some ''addPet'', extension = None\<rparr>)]"

definition spec_with :: "SOCControllerMethodExtensionData \<Rightarrow> OpenAPIObject" where
  "spec_with extensionData = \<lparr>paths = Some [(''/pets'', pathItem_with extensionData)]\<rparr>"

definition example_spec :: OpenAPIObject where
  "example_spec = spec_with example_extension"

text \<open>The extension validator of the examples rejects a parameter argument without a name.\<close>

definition example_openapi :: openapi_module where
  "example_openapi =
     \<lparr>SOCControllerMethodExtensionName = ''x-simply-controller-method'',
      validateSOCControllerMethodExtensionData =
        (\<lambda>extensionData.
           if OpenapiParameter [] \<in> set (or_empty (ext_handlerArgs extensionData))
           then (False, [\<lparr>instancePath = ''/handlerArgs'', keyword = ''minLength'',
                          message = ''must not be shorter than 1 character''\<rparr>])
           else (True, []))\<rparr>"

definition declining_factory :: "nat factory" where
  "declining_factory fc compiled = (Inr None, compiled)"

definition number_factory :: "nat factory" where
  "number_factory fc compiled =
     (case fc_createValueProcessor fc number_schema compiled of
        (Inl e, compiled1) \<Rightarrow> (Inl e, compiled1)
      | (Inr process, compiled1) \<Rightarrow> (Inr (Some 1), compiled1))"

definition example_opts :: "nat CreateMethodHandlerOpts" where
  "example_opts =
     \<lparr>opts_resolveController = None,
      opts_resolveHandler = None,
      opts_requestDataProcessorFactories = Some [declining_factory, number_factory],
      opts_handlerMiddleware = Some [HandlerMiddleware 0],
      opts_preExpressMiddleware = Some [ExpressMiddleware 1],
      opts_postExpressMiddleware = Some [ExpressMiddleware 9]\<rparr>"

definition example_methodHandler :: "nat MethodHandler" where
  "example_methodHandler =
     \<lparr>mh_controller = example_controller,
      mh_handler = JsFunction 1,
      mh_handlerArgs = [OpenapiParameter ''limit''],
      mh_processors = [1],
      mh_handlerMiddleware = [HandlerMiddleware 0, HandlerMiddleware 2],
      mh_preExpressMiddleware = [ExpressMiddleware 1, ExpressMiddleware 3],
      mh_postExpressMiddleware = [ExpressMiddleware 9],
      mh_context =
        \<lparr>mhc_spec = example_spec, mhc_path = ''/pets'', mhc_method = Get,
         mhc_pathItem = pathItem_with example_extension,
         mhc_operation = operation_with example_extension,
         mhc_controller = example_controller, mhc_handler = JsFunction 1\<rparr>\<rparr>"

text \<open>A document with one component schema, for resolving references.\<close>

definition example_document :: json where
  "example_document =
     JObj [(''openapi'', JStr ''3.1.0''),
           (''components'',
            JObj [(''schemas'', JObj [(''Pet'', JObj [(''type'', JStr ''object'')])])])]"

section \<open>Value coercion: properties\<close>

text \<open>
  Claim C1. For every schema fragment, \<open>createValueProcessor\<close> hands \<open>ajv.compile\<close> the
  synthetic object schema \<open>{ type: "object", properties: { value: schema } }\<close> and no other
  schema. When the engine throws on it, \<open>createValueProcessor\<close> throws the same exception
  and builds no processor. When the engine returns a validator, a processor is built;
  applied to a candidate, it validates the wrapper \<open>{ value: candidate }\<close>, and when the
  validator accepts, the result is the property \<open>value\<close> of the wrapper as the validator
  left it, and when it rejects, the processor throws a \<open>ValidationError\<close> and returns no
  value.
\<close>

theorem createValueProcessor_wraps_and_validates:
  "snd (createValueProcessor ajv schema compiled) =
     compiled @ [JObj [(''type'', JStr ''object''), (''properties'', JObj [(''value'', schema)])]]
   \<and> (\<forall>e. compile ajv (JObj [(''type'', JStr ''object''), (''properties'', JObj [(''value'', schema)])])
            = Inl e \<longrightarrow>
          fst (createValueProcessor ajv schema compiled) = Inl e)
   \<and> (\<forall>validate.
          compile ajv (JObj [(''type'', JStr ''object''), (''properties'', JObj [(''value'', schema)])])
            = Inr validate \<longrightarrow>
          (\<exists>process.
             fst (createValueProcessor ajv schema compiled) = Inr process
           \<and> (\<forall>candidate.
                 process candidate =
                   (if valid (validate [(''value'', candidate)])
                    then Inr (get_property (data (validate [(''value'', candidate)])) ''value'')
                    else Inl (ValidationError (errors (validate [(''value'', candidate)])))))))"
proof (intro conjI allI impI)
  show "snd (createValueProcessor ajv schema compiled) =
     compiled @ [JObj [(''type'', JStr ''object''), (''properties'', JObj [(''value'', schema)])]]"
    by (cases "compile ajv (wrappedSchema schema)")
      (simp_all add: createValueProcessor_def wrappedSchema_def)
next
  fix e
  assume "compile ajv (JObj [(''type'', JStr ''object''), (''properties'', JObj [(''value'', schema)])])
            = Inl e"
  then show "fst (createValueProcessor ajv schema compiled) = Inl e"
    by (simp add: createValueProcessor_def wrappedSchema_def)
next
  fix validate
  assume "compile ajv (JObj [(''type'', JStr ''object''), (''properties'', JObj [(''value'', schema)])])
            = Inr validate"
  then have "fst (createValueProcessor ajv schema compiled) = Inr (processValue validate)"
    by (simp add: createValueProcessor_def wrappedSchema_def)
  then show "\<exists>process.
             fst (createValueProcessor ajv schema compiled) = Inr process
           \<and> (\<forall>candidate.
                 process candidate =
                   (if valid (validate [(''value'', candidate)])
                    then Inr (get_property (data (validate [(''value'', candidate)])) ''value'')
                    else Inl (ValidationError (errors (validate [(''value'', candidate)])))))"
    by (simp add: processValue_def)
qed

lemma number_validator_coerces:
  "number_validator [(''value'', JStr ''42'')] =
     \<lparr>valid = True, data = [(''value'', JNum 42)], errors = []\<rparr>"
  by (simp add: number_validator_def get_property_def is_digit_def decimal_value_def set_value_def)

lemma number_validator_rejects:
  "number_validator [(''value'', JStr ''abc'')] =
     \<lparr>valid = False, data = [(''value'', JStr ''abc'')], errors = [must_be_number]\<rparr>"
  by (simp add: number_validator_def get_property_def is_digit_def)

lemma example_ajv_compiles_number_wrapper:
  "compile example_ajv
     (JObj [(''type'', JStr ''object''), (''properties'', JObj [(''value'', number_schema)])])
   = Inr number_validator"
  by (simp add: example_ajv_def wrappedSchema_def)

lemma example_ajv_rejects_other_wrapper:
  "compile example_ajv
     (JObj [(''type'', JStr ''object''), (''properties'', JObj [(''value'', JStr ''number'')])])
   = Inl (Error ''schema is invalid'')"
  by (simp add: example_ajv_def wrappedSchema_def number_schema_def)

text \<open>
  The witness builds a processor for the number schema and runs it on a string that is
  coerced and on one that is rejected, and builds none for a schema that the engine
  refuses to compile.
\<close>

theorem createValueProcessor_wraps_and_validates_witness:
  "(\<exists>process.
      createValueProcessor example_ajv number_schema [] =
        (Inr process,
         [JObj [(''type'', JStr ''object''), (''properties'', JObj [(''value'', number_schema)])]])
    \<and> process (JStr ''42'') = Inr (JNum 42)
    \<and> process (JStr ''abc'') = Inl (ValidationError [must_be_number]))
   \<and> createValueProcessor example_ajv (JStr ''number'') [] =
        (Inl (Error ''schema is invalid''),
         [JObj [(''type'', JStr ''object''), (''properties'', JObj [(''value'', JStr ''number'')])]])"
proof -
  note t1 = createValueProcessor_wraps_and_validates [of example_ajv number_schema "[]"]
  note t2 = createValueProcessor_wraps_and_validates [of example_ajv "JStr ''number''" "[]"]
  from t1 example_ajv_compiles_number_wrapper
  obtain process where
    built: "fst (createValueProcessor example_ajv number_schema []) = Inr process"
    and run: "\<And>candidate. process candidate =
      (if valid (number_validator [(''value'', candidate)])
       then Inr (get_property (data (number_validator [(''value'', candidate)])) ''value'')
       else Inl (ValidationError (errors (number_validator [(''value'', candidate)]))))"
    by auto
  have logged: "snd (createValueProcessor example_ajv number_schema []) =
      [JObj [(''type'', JStr ''object''), (''properties'', JObj [(''value'', number_schema)])]]"
    using t1 by simp
  have "process (JStr ''42'') = Inr (JNum 42)"
    by (simp add: run number_validator_coerces get_property_def)
  moreover have "process (JStr ''abc'') = Inl (ValidationError [must_be_number])"
    by (simp add: run number_validator_rejects)
  moreover have "createValueProcessor example_ajv number_schema [] =
      (Inr process,
       [JObj [(''type'', JStr ''object''), (''properties'', JObj [(''value'', number_schema)])]])"
    using built logged by (simp add: prod_eq_iff)
  moreover have "createValueProcessor example_ajv (JStr ''number'') [] =
      (Inl (Error ''schema is invalid''),
       [JObj [(''type'', JStr ''object''), (''properties'', JObj [(''value'', JStr ''number'')])]])"
    using t2 example_ajv_rejects_other_wrapper by (simp add: prod_eq_iff)
  ultimately show ?thesis by blast
qed

text \<open>
  Claim C2, as amended. When the validator rejects the wrapper, the \<open>ValidationError\<close> that
  the processor throws carries the validator's error objects as the validator reported
  them: nothing is removed from their locations, which still begin with the segment
  \<open>value\<close> of the wrapper.
\<close>

theorem processor_throws_validator_errors_unchanged:
  assumes "compile ajv (wrappedSchema schema) = Inr validate"
    and "\<not> valid (validate [(''value'', candidate)])"
  shows "\<exists>process.
           fst (createValueProcessor ajv schema compiled) = Inr process
         \<and> process candidate = Inl (ValidationError (errors (validate [(''value'', candidate)])))"
  using assms by (simp add: createValueProcessor_def processValue_def)

theorem processor_throws_validator_errors_unchanged_witness:
  "compile example_ajv (wrappedSchema number_schema) = Inr number_validator
   \<and> \<not> valid (number_validator [(''value'', JStr ''abc'')])
   \<and> (\<exists>process.
         fst (createValueProcessor example_ajv number_schema []) = Inr process
       \<and> process (JStr ''abc'') =
           Inl (ValidationError
             [\<lparr>instancePath = ''/value'', keyword = ''type'', message = ''must be number''\<rparr>]))"
proof -
  have h1: "compile example_ajv (wrappedSchema number_schema) = Inr number_validator"
    by (simp add: example_ajv_def)
  have h2: "\<not> valid (number_validator [(''value'', JStr ''abc'')])"
    by (simp add: number_validator_rejects)
  show ?thesis
    using h1 h2 processor_throws_validator_errors_unchanged [OF h1 h2, of "[]"]
    by (simp add: number_validator_rejects must_be_number_def)
qed

text \<open>
  Claim C2 as the specification states it fails: for the candidate \<open>"abc"\<close> against the
  number schema, the error thrown is located at \<open>/value\<close>, and it is not the validator's
  error with that segment stripped.
\<close>

theorem value_segment_not_stripped:
  "fst (createValueProcessor example_ajv number_schema []) = Inr (processValue number_validator)
   \<and> processValue number_validator (JStr ''abc'') =
       Inl (ValidationError
         [\<lparr>instancePath = ''/value'', keyword = ''type'', message = ''must be number''\<rparr>])
   \<and> processValue number_validator (JStr ''abc'') \<noteq>
       Inl (ValidationError
         (map spec_strip_value_segment (errors (number_validator [(''value'', JStr ''abc'')]))))"
  by (simp add: createValueProcessor_def example_ajv_def processValue_def number_validator_rejects
      must_be_number_def spec_strip_value_segment_def)

text \<open>
  Claim C8, as amended. Building a value processor a second time for the same schema
  fragment, on the same engine, gives the result of the first build: the same behaviour on
  every input. The processor built is \<open>processValue\<close> of the validator compiled at its
  build, so all its coercions use that one validator. But every build calls \<open>ajv.compile\<close>,
  once, on a wrapper schema made for that build: after two builds for one fragment the
  engine has compiled its wrapper twice, and \<open>createValueProcessor\<close> keeps no validator
  from one build to the next.
\<close>

theorem createValueProcessor_same_behaviour_compiled_per_build:
  "fst (createValueProcessor ajv schema (snd (createValueProcessor ajv schema compiled)))
     = fst (createValueProcessor ajv schema compiled)
   \<and> fst (createValueProcessor ajv schema compiled)
     = map_sum (\<lambda>e. e) processValue (compile ajv (wrappedSchema schema))
   \<and> snd (createValueProcessor ajv schema compiled) = compiled @ [wrappedSchema schema]
   \<and> snd (createValueProcessor ajv schema (snd (createValueProcessor ajv schema compiled)))
     = compiled @ [wrappedSchema schema, wrappedSchema schema]"
proof -
  have built: "fst (createValueProcessor ajv schema log)
      = map_sum (\<lambda>e. e) processValue (compile ajv (wrappedSchema schema))" for log
    by (cases "compile ajv (wrappedSchema schema)") (simp_all add: createValueProcessor_def)
  have logged: "snd (createValueProcessor ajv schema log) = log @ [wrappedSchema schema]" for log
    by (cases "compile ajv (wrappedSchema schema)") (simp_all add: createValueProcessor_def)
  show ?thesis
    by (simp add: built logged)
qed

text \<open>
  Claim C8 as the specification states it fails in its second half: two builds for the
  number schema leave two compilations of its wrapper in the engine's log, not one.
\<close>

theorem wrapper_compiled_twice_by_two_builds:
  "count_list
     (snd (createValueProcessor example_ajv number_schema
        (snd (createValueProcessor example_ajv number_schema []))))
     (wrappedSchema number_schema) = 2"
  by (simp add: createValueProcessor_def example_ajv_def)

section \<open>The method handler factory: properties\<close>

lemmas example_defs =
  example_controller_def example_extension_def operation_with_def pathItem_with_def spec_with_def
  example_spec_def example_openapi_def declining_factory_def number_factory_def example_opts_def
  example_methodHandler_def example_ajv_def property_of_def object_prototype_keys_def

lemma example_build:
  "createMethodHandlerFromSpec example_openapi example_spec ''/pets'' Get example_ajv example_opts []
     = (Inr example_methodHandler, [wrappedSchema number_schema])"
  by (simp add: createMethodHandlerFromSpec_def example_defs or_empty_def
      lookup_method_def createValueProcessor_def filter_isNotNullOrUndefined_def List.map_filter_simps)

text \<open>
  Claim C5. In the method handler that \<open>createMethodHandlerFromSpec\<close> assembles, the
  handler-wrapping middleware is the build options' list followed by the list of the
  operation's extension data, the pre-dispatch middleware likewise, and the post-dispatch
  middleware is the build options' list alone; an absent list counts as empty.
\<close>

theorem createMethodHandlerFromSpec_middleware_lists:
  assumes "createMethodHandlerFromSpec openapi spec path method ajv opts compiled = (Inr mh, compiled1)"
  shows "\<exists>pathItem operation extensionData.
           map_of (or_empty (paths spec)) path = Some pathItem
         \<and> map_of pathItem method = Some operation
         \<and> extension operation = Some extensionData
         \<and> mh_handlerMiddleware mh =
             or_empty (opts_handlerMiddleware opts) @ or_empty (ext_handlerMiddleware extensionData)
         \<and> mh_preExpressMiddleware mh =
             or_empty (opts_preExpressMiddleware opts) @ or_empty (ext_preExpressMiddleware extensionData)
         \<and> mh_postExpressMiddleware mh = or_empty (opts_postExpressMiddleware opts)"
  using assms unfolding createMethodHandlerFromSpec_def Let_def property_of_def
  by (auto split: option.splits if_splits sum.splits prod.splits property.splits)

theorem createMethodHandlerFromSpec_middleware_lists_witness:
  "createMethodHandlerFromSpec example_openapi example_spec ''/pets'' Get example_ajv example_opts []
     = (Inr example_methodHandler, [wrappedSchema number_schema])
   \<and> mh_handlerMiddleware example_methodHandler = [HandlerMiddleware 0, HandlerMiddleware 2]
   \<and> mh_preExpressMiddleware example_methodHandler = [ExpressMiddleware 1, ExpressMiddleware 3]
   \<and> mh_postExpressMiddleware example_methodHandler = [ExpressMiddleware 9]"
  using example_build createMethodHandlerFromSpec_middleware_lists [OF example_build]
  by (auto simp add: example_defs or_empty_def)

text \<open>
  Claim C6. \<open>createMethodHandlerFromSpec\<close> throws an \<open>Error\<close>, and builds no handler,
  when the document has no path item for the path, when the path item has no operation for
  the method, when the operation has no extension data, and when the extension data does
  not pass its validator. For a path that the document does not have, the error is the one
  of the missing path, unless the path names a property that every object inherits: then
  the lookup finds that inherited value and the error is the one of the missing operation.
  The error is the outcome of the factory call itself; no schema has been compiled by then.
\<close>

theorem createMethodHandlerFromSpec_configuration_errors:
  "(map_of (or_empty (paths spec)) path = None \<longrightarrow>
      createMethodHandlerFromSpec openapi spec path method ajv opts compiled =
        (Inl (Error
           (if path \<in> set object_prototype_keys
            then ''Operation '' @ String_method method @ '' not found on path '' @ path @ ''.''
            else ''Path '' @ path @ '' not found in spec.'')), compiled))
   \<and> (\<forall>pathItem.
        map_of (or_empty (paths spec)) path = Some pathItem \<and> map_of pathItem method = None \<longrightarrow>
        createMethodHandlerFromSpec openapi spec path method ajv opts compiled =
          (Inl (Error (''Operation '' @ String_method method @ '' not found on path '' @ path @ ''.'')),
           compiled))
   \<and> (\<forall>pathItem operation.
        map_of (or_empty (paths spec)) path = Some pathItem \<and> map_of pathItem method = Some operation
        \<and> extension operation = None \<longrightarrow>
        createMethodHandlerFromSpec openapi spec path method ajv opts compiled =
          (Inl (Error (''Operation '' @ String_opt (operationId operation) @ '' is missing the ''
             @ SOCControllerMethodExtensionName openapi @ '' extension.'')), compiled))
   \<and> (\<forall>pathItem operation extensionData.
        map_of (or_empty (paths spec)) path = Some pathItem \<and> map_of pathItem method = Some operation
        \<and> extension operation = Some extensionData
        \<and> \<not> fst (validateSOCControllerMethodExtensionData openapi extensionData) \<longrightarrow>
        createMethodHandlerFromSpec openapi spec path method ajv opts compiled =
          (Inl (Error (''Operation '' @ String_opt (operationId operation) @ '' has an invalid ''
             @ SOCControllerMethodExtensionName openapi @ '' extension: ''
             @ errorsText ajv (snd (validateSOCControllerMethodExtensionData openapi extensionData))
             @ ''}'')), compiled))"
proof (intro conjI allI impI)
  assume "map_of (or_empty (paths spec)) path = None"
  then show "createMethodHandlerFromSpec openapi spec path method ajv opts compiled =
        (Inl (Error
           (if path \<in> set object_prototype_keys
            then ''Operation '' @ String_method method @ '' not found on path '' @ path @ ''.''
            else ''Path '' @ path @ '' not found in spec.'')), compiled)"
    by (simp add: createMethodHandlerFromSpec_def property_of_def)
next
  fix pathItem
  assume "map_of (or_empty (paths spec)) path = Some pathItem \<and> map_of pathItem method = None"
  then show "createMethodHandlerFromSpec openapi spec path method ajv opts compiled =
          (Inl (Error (''Operation '' @ String_method method @ '' not found on path '' @ path @ ''.'')),
           compiled)"
    by (simp add: createMethodHandlerFromSpec_def property_of_def)
next
  fix pathItem operation
  assume "map_of (or_empty (paths spec)) path = Some pathItem \<and> map_of pathItem method = Some operation
        \<and> extension operation = None"
  then show "createMethodHandlerFromSpec openapi spec path method ajv opts compiled =
          (Inl (Error (''Operation '' @ String_opt (operationId operation) @ '' is missing the ''
             @ SOCControllerMethodExtensionName openapi @ '' extension.'')), compiled)"
    by (simp add: createMethodHandlerFromSpec_def property_of_def)
next
  fix pathItem operation extensionData
  assume "map_of (or_empty (paths spec)) path = Some pathItem \<and> map_of pathItem method = Some operation
        \<and> extension operation = Some extensionData
        \<and> \<not> fst (validateSOCControllerMethodExtensionData openapi extensionData)"
  then show "createMethodHandlerFromSpec openapi spec path method ajv opts compiled =
          (Inl (Error (''Operation '' @ String_opt (operationId operation) @ '' has an invalid ''
             @ SOCControllerMethodExtensionName openapi @ '' extension: ''
             @ errorsText ajv (snd (validateSOCControllerMethodExtensionData openapi extensionData))
             @ ''}'')), compiled)"
    by (simp add: createMethodHandlerFromSpec_def property_of_def)
qed

theorem createMethodHandlerFromSpec_configuration_errors_witness:
  "createMethodHandlerFromSpec example_openapi example_spec ''/owners'' Get example_ajv example_opts []
     = (Inl (Error ''Path /owners not found in spec.''), [])
   \<and> createMethodHandlerFromSpec example_openapi example_spec ''toString'' Get example_ajv example_opts []
     = (Inl (Error ''Operation get not found on path toString.''), [])
   \<and> createMethodHandlerFromSpec example_openapi example_spec ''/pets'' Delete example_ajv example_opts []
     = (Inl (Error ''Operation delete not found on path /pets.''), [])
   \<and> createMethodHandlerFromSpec example_openapi example_spec ''/pets'' Post example_ajv example_opts []
     = (Inl (Error ''Operation addPet is missing the x-simply-controller-method extension.''), [])
   \<and> createMethodHandlerFromSpec example_openapi
        (spec_with (example_extension\<lparr>ext_handlerArgs := Some [OpenapiParameter []]\<rparr>))
        ''/pets'' Get example_ajv example_opts []
     = (Inl (Error (''Operation listPets has an invalid x-simply-controller-method extension: ''
          @ ''data/handlerArgs must not be shorter than 1 character}'')), [])"
proof -
  note t = createMethodHandlerFromSpec_configuration_errors
  have "createMethodHandlerFromSpec example_openapi example_spec ''/owners'' Get example_ajv example_opts []
     = (Inl (Error ''Path /owners not found in spec.''), [])"
    using t [of example_spec "''/owners''" example_openapi Get example_ajv example_opts "[]"]
    by (simp add: example_spec_def spec_with_def or_empty_def object_prototype_keys_def)
  moreover
  have "createMethodHandlerFromSpec example_openapi example_spec ''toString'' Get example_ajv example_opts []
     = (Inl (Error ''Operation get not found on path toString.''), [])"
    using t [of example_spec "''toString''" example_openapi Get example_ajv example_opts "[]"]
    by (simp add: example_spec_def spec_with_def or_empty_def object_prototype_keys_def)
  moreover
  have "createMethodHandlerFromSpec example_openapi example_spec ''/pets'' Delete example_ajv example_opts []
     = (Inl (Error ''Operation delete not found on path /pets.''), [])"
    using t [of example_spec "''/pets''" example_openapi Delete example_ajv example_opts "[]"]
    by (simp add: example_spec_def spec_with_def pathItem_with_def or_empty_def)
  moreover
  have "createMethodHandlerFromSpec example_openapi example_spec ''/pets'' Post example_ajv example_opts []
     = (Inl (Error ''Operation addPet is missing the x-simply-controller-method extension.''), [])"
    using t [of example_spec "''/pets''" example_openapi Post example_ajv example_opts "[]"]
    by (simp add: example_spec_def spec_with_def pathItem_with_def or_empty_def String_opt_def
        example_openapi_def)
  moreover
  have "createMethodHandlerFromSpec example_openapi
        (spec_with (example_extension\<lparr>ext_handlerArgs := Some [OpenapiParameter []]\<rparr>))
        ''/pets'' Get example_ajv example_opts []
     = (Inl (Error (''Operation listPets has an invalid x-simply-controller-method extension: ''
          @ ''data/handlerArgs must not be shorter than 1 character}'')), [])"
    using t [of "spec_with (example_extension\<lparr>ext_handlerArgs := Some [OpenapiParameter []]\<rparr>)"
        "''/pets''" example_openapi Get example_ajv example_opts "[]"]
    by (simp add: spec_with_def pathItem_with_def operation_with_def or_empty_def String_opt_def
        example_openapi_def example_extension_def example_ajv_def)
  ultimately show ?thesis by blast
qed











section \<open>Argument descriptors: properties\<close>

lemma arg_type_truthy: "arg_type a \<noteq> []"
  by (cases a) simp_all

lemma has_type_iff: "has_type arr i \<longleftrightarrow> (\<exists>a. at arr i = Some (Some a))"
  by (auto simp add: has_type_def arg_type_truthy split: option.splits)

lemma at_array_set_same: "at (array_set arr i v) i = Some (Some v)"
  by (simp add: at_def array_set_def nth_append)

lemma at_array_set_other: "j \<noteq> i \<Longrightarrow> j < length arr \<Longrightarrow> at (array_set arr i v) j = at arr j"
  by (simp add: at_def array_set_def nth_append)

lemma at_array_set_hole: "length arr \<le> j \<Longrightarrow> j < i \<Longrightarrow> at (array_set arr i v) j = Some None"
  by (simp add: at_def array_set_def nth_append)

lemma length_array_set: "length (array_set arr i v) = max (length arr) (Suc i)"
  by (simp add: array_set_def)

text \<open>
  Claim C9. \<open>setMethodParameterType\<close> hands \<open>mergeSOCControllerMethodMetadata\<close> an update
  of the method's metadata that throws an \<open>Error\<close> when the argument list already has a
  descriptor at the parameter index, and that otherwise puts the descriptor at exactly that
  index: the descriptors at the other indices are as before, the list grows only as far as
  the index (with empty positions in between), and the rest of the metadata is unchanged.
  So a position never gets a second descriptor, and a descriptor sits at the position of
  the parameter it was declared for.
\<close>

theorem setMethodParameterType_records_at_index:
  "setMethodParameterType merge target propertyKey i arg
     = merge target (setMethodParameterType_update propertyKey i arg) propertyKey
   \<and> ((\<exists>a. at (or_empty (args previous)) i = Some (Some a)) \<longrightarrow>
        setMethodParameterType_update propertyKey i arg previous
          = Inl (Error (''Method handler '' @ String_key propertyKey
              @ '' cannot redefine the parameter type at index '' @ String_nat i @ ''.'')))
   \<and> ((\<forall>a. at (or_empty (args previous)) i \<noteq> Some (Some a)) \<longrightarrow>
        (\<exists>args1.
           setMethodParameterType_update propertyKey i arg previous
             = Inr (previous\<lparr>args := Some args1\<rparr>)
         \<and> at args1 i = Some (Some arg)
         \<and> length args1 = max (length (or_empty (args previous))) (Suc i)
         \<and> (\<forall>j. j \<noteq> i \<and> j < length (or_empty (args previous)) \<longrightarrow>
                at args1 j = at (or_empty (args previous)) j)
         \<and> (\<forall>j. length (or_empty (args previous)) \<le> j \<and> j < i \<longrightarrow> at args1 j = Some None)))"
proof (intro conjI impI)
  show "setMethodParameterType merge target propertyKey i arg
     = merge target (setMethodParameterType_update propertyKey i arg) propertyKey"
    by (simp add: setMethodParameterType_def)
next
  assume "\<exists>a. at (or_empty (args previous)) i = Some (Some a)"
  then have "has_type (or_empty (args previous)) i"
    by (simp add: has_type_iff)
  then show "setMethodParameterType_update propertyKey i arg previous
          = Inl (Error (''Method handler '' @ String_key propertyKey
              @ '' cannot redefine the parameter type at index '' @ String_nat i @ ''.''))"
    by (simp add: setMethodParameterType_update_def del: String_nat.simps)
next
  assume "\<forall>a. at (or_empty (args previous)) i \<noteq> Some (Some a)"
  then have "\<not> has_type (or_empty (args previous)) i"
    by (simp add: has_type_iff)
  then have "setMethodParameterType_update propertyKey i arg previous
      = Inr (previous\<lparr>args := Some (array_set (or_empty (args previous)) i arg)\<rparr>)"
    by (simp add: setMethodParameterType_update_def)
  then show "\<exists>args1.
           setMethodParameterType_update propertyKey i arg previous
             = Inr (previous\<lparr>args := Some args1\<rparr>)
         \<and> at args1 i = Some (Some arg)
         \<and> length args1 = max (length (or_empty (args previous))) (Suc i)
         \<and> (\<forall>j. j \<noteq> i \<and> j < length (or_empty (args previous)) \<longrightarrow>
                at args1 j = at (or_empty (args previous)) j)
         \<and> (\<forall>j. length (or_empty (args previous)) \<le> j \<and> j < i \<longrightarrow> at args1 j = Some None)"
    by (intro exI [of _ "array_set (or_empty (args previous)) i arg"])
      (simp add: at_array_set_same at_array_set_other at_array_set_hole length_array_set)
qed

text \<open>
  The witness runs \<open>setMethodParameterType\<close> with a merge that applies the update to the
  metadata the target holds for the property key. The method \<open>getPet\<close> has its third
  parameter bound to the request body; binding its first parameter succeeds, binding the
  third again throws, and on a method without metadata the list grows to the index.
\<close>

theorem setMethodParameterType_records_at_index_witness:
  "setMethodParameterType (\<lambda>target update key. update (target key))
       (\<lambda>key. \<lparr>args = Some [None, None, Some RequestBody]\<rparr>)
       (StringKey ''getPet'') 0 (OpenapiParameter ''id'')
     = Inr \<lparr>args = Some [Some (OpenapiParameter ''id''), None, Some RequestBody]\<rparr>
   \<and> setMethodParameterType (\<lambda>target update key. update (target key))
       (\<lambda>key. \<lparr>args = Some [None, None, Some RequestBody]\<rparr>)
       (StringKey ''getPet'') 2 (OpenapiParameter ''id'')
     = Inl (Error ''Method handler getPet cannot redefine the parameter type at index 2.'')
   \<and> setMethodParameterType (\<lambda>target update key. update (target key))
       (\<lambda>key. \<lparr>args = None\<rparr>)
       (StringKey ''getPet'') 2 RequestBody
     = Inr \<lparr>args = Some [None, None, Some RequestBody]\<rparr>"
proof -
  let ?merge = "\<lambda>(target :: property_key \<Rightarrow> SOCControllerMethodMetadata) update key. update (target key)"
  let ?bound = "\<lambda>key :: property_key. \<lparr>args = Some [None, None, Some RequestBody]\<rparr>"
  let ?fresh = "\<lambda>key :: property_key. \<lparr>args = None\<rparr>"
  let ?previous = "\<lparr>args = Some [None, None, Some RequestBody]\<rparr>"
  note t0 = setMethodParameterType_records_at_index
    [of ?merge ?bound "StringKey ''getPet''" 0 "OpenapiParameter ''id''" ?previous]
  note t2 = setMethodParameterType_records_at_index
    [of ?merge ?bound "StringKey ''getPet''" 2 "OpenapiParameter ''id''" ?previous]
  note t3 = setMethodParameterType_records_at_index
    [of ?merge ?fresh "StringKey ''getPet''" 2 RequestBody "\<lparr>args = None\<rparr>"]
  have "setMethodParameterType ?merge ?bound (StringKey ''getPet'') 2 (OpenapiParameter ''id'')
     = Inl (Error ''Method handler getPet cannot redefine the parameter type at index 2.'')"
    using t2 by (simp add: or_empty_def at_def)
  moreover
  have "setMethodParameterType ?merge ?bound (StringKey ''getPet'') 0 (OpenapiParameter ''id'')
     = Inr \<lparr>args = Some [Some (OpenapiParameter ''id''), None, Some RequestBody]\<rparr>"
    using t0
    by (simp add: setMethodParameterType_update_def or_empty_def at_def has_type_def array_set_def)
  moreover
  have "setMethodParameterType ?merge ?fresh (StringKey ''getPet'') 2 RequestBody
     = Inr \<lparr>args = Some [None, None, Some RequestBody]\<rparr>"
    using t3
    by (simp add: setMethodParameterType_update_def or_empty_def at_def has_type_def array_set_def
        numeral_2_eq_2)
  ultimately show ?thesis by blast
qed

section \<open>Reference resolution: properties\<close>

text \<open>
  What \<open>resolveReference\<close> does, for any pointer package: a value without \<open>$ref\<close> is
  returned as it is; a \<open>$ref\<close> that does not begin with \<open>#\<close> is an \<open>Error\<close>; for a \<open>$ref\<close>
  that begins with \<open>#\<close>, the rest is parsed, and the result is what the pointer evaluates
  to in the document, or \<open>null\<close> when the evaluation throws. Only one reference is
  followed: the target is returned as it is, also when it is a reference itself.
\<close>

lemma resolveReference_not_a_reference:
  "map_of kvs ''$ref'' = None \<Longrightarrow> resolveReference parse eval spec (JObj kvs) = Inr (JObj kvs)"
  by (simp add: resolveReference_def)

lemma resolveReference_external:
  "map_of kvs ''$ref'' = Some (JStr ref) \<Longrightarrow> \<not> startsWith_hash ref \<Longrightarrow>
   resolveReference parse eval spec (JObj kvs) =
     Inl (Error (''Cannot resolve external reference \"'' @ ref @ ''\" in the OpenAPI schema.''))"
  by (simp add: resolveReference_def)

lemma resolveReference_not_found:
  "map_of kvs ''$ref'' = Some (JStr ref) \<Longrightarrow> startsWith_hash ref \<Longrightarrow>
   parse (substring_from ref 1) = Inr ptr \<Longrightarrow> eval ptr spec = Inl e \<Longrightarrow>
   resolveReference parse eval spec (JObj kvs) = Inr JNull"
  by (simp add: resolveReference_def)

lemma resolveReference_target:
  "map_of kvs ''$ref'' = Some (JStr ref) \<Longrightarrow> startsWith_hash ref \<Longrightarrow>
   parse (substring_from ref 1) = Inr ptr \<Longrightarrow> eval ptr spec = Inr target \<Longrightarrow>
   resolveReference parse eval spec (JObj kvs) = Inr target"
  by (simp add: resolveReference_def)

text \<open>
  The parser runs outside the \<open>try\<close> block: whatever it throws on the text after \<open>#\<close> is
  thrown by \<open>resolveReference\<close>.
\<close>

lemma resolveReference_parse_error:
  "map_of kvs ''$ref'' = Some (JStr ref) \<Longrightarrow> startsWith_hash ref \<Longrightarrow>
   parse (substring_from ref 1) = Inl e \<Longrightarrow>
   resolveReference parse eval spec (JObj kvs) = Inl e"
  by (simp add: resolveReference_def)

lemma resolveReference_examples:
  "resolveReference Ptr_parse Ptr_eval example_document (JObj [(''$ref'', JStr ''#/components/schemas/Pet'')])
     = Inr (JObj [(''type'', JStr ''object'')])"
  "resolveReference Ptr_parse Ptr_eval example_document (JObj [(''$ref'', JStr ''#/components/schemas/Missing'')])
     = Inr JNull"
  "resolveReference Ptr_parse Ptr_eval example_document (JObj [(''type'', JStr ''string'')])
     = Inr (JObj [(''type'', JStr ''string'')])"
  by (simp_all add: resolveReference_def Ptr_parse_def substring_from_def example_document_def)

text \<open>
  Claim C3 fails on the code. The reference \<open>#components/schemas/Pet\<close> begins with \<open>#\<close>
  and names nothing in the document: its pointer lacks the leading \<open>/\<close>. The claim has
  \<open>resolveReference\<close> return \<open>null\<close> without throwing; the code throws the parser's
  \<open>InvalidPtrError\<close>.
\<close>

theorem resolveReference_throws_on_malformed_pointer:
  "resolveReference Ptr_parse Ptr_eval example_document
     (JObj [(''$ref'', JStr ''#components/schemas/Pet'')])
   = Inl (InvalidPtrError ''components/schemas/Pet'')
   \<and> resolveReference Ptr_parse Ptr_eval example_document
     (JObj [(''$ref'', JStr ''#components/schemas/Pet'')])
   \<noteq> Inr JNull"
  by (simp add: resolveReference_def Ptr_parse_def substring_from_def)

section \<open>Content-type matching: properties\<close>

text \<open>
  On records whose values are all truthy, \<open>pickContentType\<close> computes what the
  specification's algorithm computes: the loop keeps the first match with the fewest
  wildcard halves seen so far.
\<close>

lemma spec_wildcards_le_2: "spec_wildcards p \<le> 2"
  by (simp add: spec_wildcards_def)

lemma loop_Cons:
  "pickContentType_loop (split observed CHR ''/'') ((p, v) # rest) chosen w =
     (if \<not> spec_matches observed p then pickContentType_loop (split observed CHR ''/'') rest chosen w
      else if \<not> truthy chosen \<or> spec_wildcards p < w
      then (if spec_wildcards p = 0 then v
            else pickContentType_loop (split observed CHR ''/'') rest v (spec_wildcards p))
      else pickContentType_loop (split observed CHR ''/'') rest chosen w)"
  by (auto simp add: Let_def spec_matches_def spec_wildcards_def spec_halves_def)

lemma spec_first_match_Nil: "spec_first_match observed k [] = None"
  by (simp add: spec_first_match_def)

lemma spec_first_match_Cons:
  "spec_first_match observed k ((p, v) # rest) =
     (if spec_matches observed p \<and> spec_wildcards p = k then Some (p, v)
      else spec_first_match observed k rest)"
  by (simp add: spec_first_match_def)

lemma loop_refines:
  assumes "\<forall>entry \<in> set values. truthy (snd entry)"
    and "truthy chosen \<longrightarrow> w = 1 \<or> w = 2"
  shows "pickContentType_loop (split observed CHR ''/'') values chosen w
         = spec_best_below (if truthy chosen then w else 3) observed values chosen"
  using assms
proof (induction "values" arbitrary: chosen w)
  case Nil
  then show ?case by (simp add: spec_best_below_def spec_first_match_def)
next
  case (Cons entry rest)
  obtain p v where entry: "entry = (p, v)" by (cases entry)
  have v: "truthy v" using Cons.prems(1) entry by simp
  have rest: "\<forall>entry \<in> set rest. truthy (snd entry)" using Cons.prems(1) by simp
  have wc: "spec_wildcards p = 0 \<or> spec_wildcards p = 1 \<or> spec_wildcards p = 2"
    using spec_wildcards_le_2 [of p] by arith
  note IH = Cons.IH [OF rest]
  show ?case
  proof (cases "spec_matches observed p")
    case False
    then show ?thesis
      using IH [of chosen w] Cons.prems(2)
      by (auto simp add: entry loop_Cons spec_best_below_def spec_first_match_Cons
          simp del: pickContentType_loop.simps split: option.splits)
  next
    case True
    then show ?thesis
      using IH [of chosen w] IH [of v 1] IH [of v 2] Cons.prems(2) v wc
      by (auto simp add: entry loop_Cons spec_best_below_def spec_first_match_Cons
          simp del: pickContentType_loop.simps split: option.splits)
  qed
qed


lemma strip_parameters:
  "(case indexOf ct CHR '';'' of None \<Rightarrow> ct | Some semicolon \<Rightarrow> substring_to ct semicolon)
     = takeWhile (\<lambda>c. c \<noteq> CHR '';'') ct"
  by (induction ct) (auto simp add: substring_to_def split: option.splits)

lemma pickContentType_refines_for_truthy:
  assumes "\<forall>entry \<in> set values. truthy (snd entry)"
  shows "pickContentType contentType values = spec_pickContentType contentType values"
proof (cases contentType)
  case None
  then show ?thesis by (simp add: pickContentType_def spec_pickContentType_def)
next
  case (Some ct)
  let ?observed = "takeWhile (\<lambda>c. c \<noteq> CHR '';'') ct"
  have loop: "pickContentType_loop (split ?observed CHR ''/'') values JNull 0
      = spec_best_below 3 ?observed values JNull"
    using loop_refines [OF assms, of JNull 0 ?observed] by simp
  show ?thesis
  proof (cases "ct = []")
    case True
    then show ?thesis using Some by (simp add: pickContentType_def spec_pickContentType_def)
  next
    case False
    have "pickContentType (Some ct) values =
        (if ?observed = [] then nullish (get_property values ''*/*'') JNull
         else pickContentType_loop (split ?observed CHR ''/'') values JNull 0)"
      using False strip_parameters [of ct]
      by (simp add: pickContentType_def split: option.splits)
    then show ?thesis using Some loop by (simp add: spec_pickContentType_def)
  qed
qed

lemma spec_first_match_None:
  "spec_first_match observed k values = None \<longleftrightarrow>
     (\<forall>entry \<in> set values. \<not> (spec_matches observed (fst entry) \<and> spec_wildcards (fst entry) = k))"
  by (auto simp add: spec_first_match_def find_None_iff)

lemma spec_first_match_Some:
  assumes "i < length values"
    and "spec_matches observed (fst (values ! i))" and "spec_wildcards (fst (values ! i)) = k"
    and "\<forall>j<i. \<not> (spec_matches observed (fst (values ! j)) \<and> spec_wildcards (fst (values ! j)) = k)"
  shows "spec_first_match observed k values = Some (values ! i)"
  unfolding spec_first_match_def find_Some_iff using assms by blast

lemma spec_best_below_first_fewest:
  assumes "i < length values"
    and "spec_matches observed (fst (values ! i))"
    and "\<forall>entry \<in> set values. spec_matches observed (fst entry) \<longrightarrow>
           spec_wildcards (fst (values ! i)) \<le> spec_wildcards (fst entry)"
    and "\<forall>j<i. \<not> (spec_matches observed (fst (values ! j))
           \<and> spec_wildcards (fst (values ! j)) = spec_wildcards (fst (values ! i)))"
  shows "spec_best_below 3 observed values fallback = snd (values ! i)"
proof -
  let ?k = "spec_wildcards (fst (values ! i))"
  have here: "spec_first_match observed ?k values = Some (values ! i)"
    using assms(1,2,4) by (intro spec_first_match_Some) auto
  have below: "spec_first_match observed k values = None" if "k < ?k" for k
    unfolding spec_first_match_None using assms(3) that by fastforce
  have "?k = 0 \<or> ?k = 1 \<or> ?k = 2"
    using spec_wildcards_le_2 [of "fst (values ! i)"] by arith
  then show ?thesis
    using here below [of 0] below [of 1] by (auto simp add: spec_best_below_def)
qed

lemma spec_best_below_no_match:
  assumes "\<forall>entry \<in> set values. \<not> spec_matches observed (fst entry)"
  shows "spec_best_below 3 observed values fallback = fallback"
proof -
  have "spec_first_match observed k values = None" for k
    unfolding spec_first_match_None using assms by blast
  then show ?thesis by (simp add: spec_best_below_def)
qed


text \<open>
  In the terms of the two claims, for truthy values: with a type that is not empty once
  its parameters are dropped, the result is the value of the first entry, in entry order,
  among the matching entries with the fewest wildcard halves, and \<open>null\<close> when no entry
  matches.
\<close>

lemma pickContentType_first_fewest_for_truthy:
  assumes "\<forall>entry \<in> set values. truthy (snd entry)"
    and "observed = takeWhile (\<lambda>c. c \<noteq> CHR '';'') ct" and "observed \<noteq> []"
    and "i < length values"
    and "spec_matches observed (fst (values ! i))"
    and "\<forall>entry \<in> set values. spec_matches observed (fst entry) \<longrightarrow>
           spec_wildcards (fst (values ! i)) \<le> spec_wildcards (fst entry)"
    and "\<forall>j<i. \<not> (spec_matches observed (fst (values ! j))
           \<and> spec_wildcards (fst (values ! j)) = spec_wildcards (fst (values ! i)))"
  shows "pickContentType (Some ct) values = snd (values ! i)"
  using pickContentType_refines_for_truthy [OF assms(1), of "Some ct"]
    spec_best_below_first_fewest [OF assms(4-7), of JNull] assms(2,3)
  by (simp add: spec_pickContentType_def)

lemma pickContentType_no_match_for_truthy:
  assumes "\<forall>entry \<in> set values. truthy (snd entry)"
    and "observed = takeWhile (\<lambda>c. c \<noteq> CHR '';'') ct" and "observed \<noteq> []"
    and "\<forall>entry \<in> set values. \<not> spec_matches observed (fst entry)"
  shows "pickContentType (Some ct) values = JNull"
  using pickContentType_refines_for_truthy [OF assms(1), of "Some ct"]
    spec_best_below_no_match [OF assms(4), of JNull] assms(2,3)
  by (simp add: spec_pickContentType_def)

lemma pickContentType_empty_or_absent:
  "pickContentType None values = nullish (get_property values ''*/*'') JNull"
  "pickContentType (Some []) values = nullish (get_property values ''*/*'') JNull"
  by (simp_all add: pickContentType_def)

lemma pickContentType_examples:
  "pickContentType (Some ''text/plain; charset=utf-8'')
     [(''application/json'', JStr ''json''), (''text/*'', JStr ''text'')] = JStr ''text''"
  "pickContentType (Some ''application/json'')
     [(''*/*'', JStr ''any''), (''application/json'', JStr ''json''), (''text/*'', JStr ''text'')]
     = JStr ''json''"
  by (simp_all add: pickContentType_def substring_to_def at_def)

text \<open>
  Claim C4 fails on the code. \<open>chosen\<close> is tested for truthiness, not for \<open>null\<close>: a falsy
  value that has been chosen counts as no choice, and the next matching entry replaces it
  whatever its number of wildcard halves. For the type \<open>text/plain\<close> and the record
  \<open>{ "text/*": false, "*/*": true }\<close>, both patterns match, \<open>text/*\<close> with one wildcard
  half and \<open>*/*\<close> with two; the claim has the value of \<open>text/*\<close> returned, the code
  returns the value of \<open>*/*\<close>.
\<close>

theorem pickContentType_falsy_value_loses_to_more_wildcards:
  "pickContentType (Some ''text/plain'') [(''text/*'', JBool False), (''*/*'', JBool True)]
     = JBool True
   \<and> spec_matches ''text/plain'' ''text/*'' \<and> spec_wildcards ''text/*'' = 1
   \<and> spec_matches ''text/plain'' ''*/*'' \<and> spec_wildcards ''*/*'' = 2
   \<and> spec_pickContentType (Some ''text/plain'') [(''text/*'', JBool False), (''*/*'', JBool True)]
     = JBool False"
  by (simp add: pickContentType_def spec_pickContentType_def spec_best_below_def spec_first_match_def
      spec_matches_def spec_wildcards_def spec_halves_def at_def)

text \<open>
  Claim C10 fails on the code, by the same test of \<open>chosen\<close>. For the type \<open>text/plain\<close>
  and the record \<open>{ "text/*": 0, "*/plain": 1 }\<close>, both patterns match with one wildcard
  half and nothing matches with none; the claim has the value of the first entry returned,
  the code returns the value of the second.
\<close>

theorem pickContentType_falsy_value_replaced_by_equal_match:
  "pickContentType (Some ''text/plain'') [(''text/*'', JNum 0), (''*/plain'', JNum 1)] = JNum 1
   \<and> spec_matches ''text/plain'' ''text/*'' \<and> spec_wildcards ''text/*'' = 1
   \<and> spec_matches ''text/plain'' ''*/plain'' \<and> spec_wildcards ''*/plain'' = 1
   \<and> spec_pickContentType (Some ''text/plain'') [(''text/*'', JNum 0), (''*/plain'', JNum 1)]
     = JNum 0"
  by (simp add: pickContentType_def spec_pickContentType_def spec_best_below_def spec_first_match_def
      spec_matches_def spec_wildcards_def spec_halves_def at_def)


end
